theory Spec2Isabelle
  imports Main "HOL-Library.AList"
begin

section \<open>Values, dictionaries, exceptions\<close>

text \<open>
  A Python \<open>str\<close> is a \<^typ>\<open>string\<close>, one \<^typ>\<open>char\<close> for each code point; the 256
  values of \<^typ>\<open>char\<close> are the code points U+0000 to U+00FF, which covers every key,
  status and number the state store handles. Dictionaries whose values are heterogeneous
  (stage records, statistics, keyword arguments) hold JSON values; a dictionary is an
  association list in insertion order, without duplicate keys. Binary floating point is
  left out of the value type.
\<close>

datatype json =
    JNull
  | JBool bool
  | JInt int
  | JStr string
  | JList "json list"
  | JObj "(string \<times> json) list"

type_synonym pydict = "(string \<times> json) list"

text \<open>\<open>d.get(k)\<close> and \<open>d[k] = v\<close>.\<close>

definition dict_get :: "(string \<times> 'v) list \<Rightarrow> string \<Rightarrow> 'v option" where
  "dict_get d k = map_of d k"

definition dict_set :: "(string \<times> 'v) list \<Rightarrow> string \<Rightarrow> 'v \<Rightarrow> (string \<times> 'v) list" where
  "dict_set d k v = AList.update k v d"

text \<open>Truth value of \<open>d.get(k)\<close>: \<open>None\<close>, \<open>False\<close>, \<open>0\<close> and empty containers are falsy.\<close>

fun truthy :: "json option \<Rightarrow> bool" where
  "truthy None = False"
| "truthy (Some JNull) = False"
| "truthy (Some (JBool b)) = b"
| "truthy (Some (JInt i)) = (i \<noteq> 0)"
| "truthy (Some (JStr s)) = (s \<noteq> [])"
| "truthy (Some (JList xs)) = (xs \<noteq> [])"
| "truthy (Some (JObj kvs)) = (kvs \<noteq> [])"

text \<open>
  A raised exception: \<open>Exc msg\<close> is an instance of \<open>Exception\<close> whose \<open>str(e)\<close> is
  \<open>msg\<close>; \<open>BaseExc msg\<close> is a \<open>BaseException\<close> outside \<open>Exception\<close>
  (\<open>KeyboardInterrupt\<close>, \<open>SystemExit\<close>), which \<open>except Exception\<close> does not catch.
\<close>

datatype py_exc = Exc string | BaseExc string

subsection \<open>Decimal text of integers: \<open>str(n)\<close> and \<open>int(s)\<close>\<close>

definition digit_char :: "nat \<Rightarrow> char" where
  "digit_char d = char_of (48 + d mod 10)"

fun str_nat :: "nat \<Rightarrow> string" where
  "str_nat n = (if n < 10 then [digit_char n] else str_nat (n div 10) @ [digit_char n])"

declare str_nat.simps [simp del]

definition str_int :: "int \<Rightarrow> string" where
  "str_int i = (if i < 0 then CHR ''-'' # str_nat (nat (- i)) else str_nat (nat i))"

definition is_digit :: "char \<Rightarrow> bool" where
  "is_digit c = (48 \<le> (of_char c :: nat) \<and> (of_char c :: nat) \<le> 57)"

definition digits_val :: "string \<Rightarrow> nat" where
  "digits_val s = foldl (\<lambda>a c. 10 * a + ((of_char c :: nat) - 48)) 0 s"

text \<open>
  \<open>int(s)\<close> with the default base 10. The characters U+0085 and U+00A0 are first
  replaced by a blank (every other character from U+007F on makes the text invalid);
  then the white space \<open>\t \n \v \f \r\<close> and the blank are skipped at both ends. The
  four separators U+001C..U+001F, which \<open>str.strip\<close> removes, are not skipped here.
\<close>

definition int_space :: "char \<Rightarrow> bool" where
  "int_space c = ((of_char c :: nat) \<in> {9, 10, 11, 12, 13, 32, 133, 160})"

definition strip_int :: "string \<Rightarrow> string" where
  "strip_int s = rev (dropWhile int_space (rev (dropWhile int_space s)))"

text \<open>
  One or more digits, where a single underscore may stand between two digits
  (\<open>1_000\<close>); leading zeros are allowed.
\<close>

fun grouped :: "string \<Rightarrow> bool" where
  "grouped [] = False"
| "grouped [c] = is_digit c"
| "grouped (c # d # cs) = (is_digit c \<and> (if d = CHR ''_'' then grouped cs else grouped (d # cs)))"

definition unsigned_int :: "string \<Rightarrow> nat option" where
  "unsigned_int s = (if grouped s then Some (digits_val (filter is_digit s)) else None)"

text \<open>
  Surrounding white space, an optional sign, then the digits; anything else raises
  \<open>ValueError\<close> (\<open>None\<close>).
\<close>

definition py_int :: "string \<Rightarrow> int option" where
  "py_int s =
     (case strip_int s of
        [] \<Rightarrow> None
      | c # cs \<Rightarrow>
          if c = CHR ''-'' then map_option (\<lambda>n. - int n) (unsigned_int cs)
          else if c = CHR ''+'' then map_option int (unsigned_int cs)
          else map_option int (unsigned_int (c # cs)))"

section \<open>Timestamps\<close>

text \<open>
  A naive \<open>datetime\<close>, as \<open>datetime.now()\<close> returns it. \<open>isoformat\<close> writes
  \<open>YYYY-MM-DDTHH:MM:SS\<close>, followed by \<open>.ffffff\<close> when the microsecond is not zero.
\<close>

record datetime =
  year :: nat
  month :: nat
  day :: nat
  hour :: nat
  minute :: nat
  second :: nat
  microsecond :: nat

fun zpad :: "nat \<Rightarrow> nat \<Rightarrow> string" where
  "zpad 0 n = []"
| "zpad (Suc w) n = zpad w (n div 10) @ [digit_char n]"

definition isoformat :: "datetime \<Rightarrow> string" where
  "isoformat t =
     zpad 4 (year t) @ ''-'' @ zpad 2 (month t) @ ''-'' @ zpad 2 (day t) @ ''T'' @
     zpad 2 (hour t) @ '':'' @ zpad 2 (minute t) @ '':'' @ zpad 2 (second t) @
     (if microsecond t = 0 then [] else ''.'' @ zpad 6 (microsecond t))"

section \<open>The project state (state\_manager.py)\<close>

text \<open>
  \<open>ProjectState\<close>. The \<open>pipeline\<close> dictionary has the two entries \<open>current_stage\<close> and
  \<open>stages\<close>, the \<open>materials\<close> dictionary the entries \<open>selected\<close> and \<open>generated\<close>; a
  stage record is a dictionary, since \<open>update_stage\<close> stores arbitrary keyword arguments
  in it. The type parameter is the type of the two timestamps: \<^typ>\<open>datetime\<close> in
  memory, a JSON value in the dictionary that \<open>save\<close> writes.
\<close>

record pipeline_d =
  current_stage :: int
  stages :: "(string \<times> pydict) list"

record materials_d =
  selected :: "string list"
  generated :: "pydict list"

record 't state_d =
  version :: string
  project_name :: string
  created_at :: 't
  updated_at :: 't
  config :: pydict
  input :: pydict
  pipeline :: pipeline_d
  materials :: materials_d
  statistics :: pydict

type_synonym ProjectState = "datetime state_d"

text \<open>
  \<open>StateManager\<close>: the content of \<open>state.json\<close> (\<open>None\<close> while the file does not exist)
  and the \<open>_state\<close> attribute. The file holds the dictionary handed to \<open>json.dumps\<close>.
\<close>

record StateManager =
  state_file :: "json state_d option"
  sm_state :: "ProjectState option"

definition save :: "datetime \<Rightarrow> StateManager \<Rightarrow> StateManager" where
  "save now sm =
     (case sm_state sm of
        None \<Rightarrow> sm
      | Some s \<Rightarrow>
          let s' = s\<lparr>updated_at := now\<rparr>;
              data = \<lparr>version = version s', project_name = project_name s',
                      created_at = JStr (isoformat (created_at s')),
                      updated_at = JStr (isoformat (updated_at s')),
                      config = config s', input = input s', pipeline = pipeline s',
                      materials = materials s', statistics = statistics s'\<rparr>
          in sm\<lparr>state_file := Some data, sm_state := Some s'\<rparr>)"

definition stage_names :: "string list" where
  "stage_names = [''load'', ''format'', ''compare'', ''plan'', ''write'',
                  ''merge'', ''edit'', ''analyze'', ''select'', ''generate'']"

definition seeded_stages :: "(string \<times> pydict) list" where
  "seeded_stages =
     foldl (\<lambda>d (i, name). dict_set d (str_int i @ ''_'' @ name) [(''status'', JStr ''pending'')])
       [] (zip (map int [1 ..< Suc (length stage_names)]) stage_names)"

definition create_new :: "datetime \<Rightarrow> string \<Rightarrow> pydict \<Rightarrow> StateManager \<Rightarrow> StateManager" where
  "create_new now name cfg sm =
     save now (sm\<lparr>sm_state := Some
       \<lparr>version = ''1.0'', project_name = name, created_at = now, updated_at = now,
        config = cfg, input = [],
        pipeline = \<lparr>current_stage = 0, stages = seeded_stages\<rparr>,
        materials = \<lparr>selected = [], generated = []\<rparr>,
        statistics = [(''total_tokens_used'', JInt 0), (''total_api_calls'', JInt 0),
                      (''total_time_seconds'', JInt 0)]\<rparr>\<rparr>)"

text \<open>
  \<open>update_stage(stage_key, status, **kwargs)\<close>. Every clock reading of one call is
  \<open>now\<close>. The record fetched with \<open>.get(stage_key, {})\<close> is the stored object itself when
  the key exists, so the assignments before \<open>int(...)\<close> stay in memory when \<open>int\<close>
  raises; nothing is written to the file in that case. A keyword argument named like
  one of the two positional parameters is a \<open>TypeError\<close> at the call.
\<close>

definition stage_record :: "datetime \<Rightarrow> string \<Rightarrow> pydict \<Rightarrow> pydict \<Rightarrow> pydict" where
  "stage_record now status kwargs stage0 =
     (let stage1 = dict_set stage0 ''status'' (JStr status);
          stage2 = (if status = ''in_progress'' \<and> \<not> truthy (dict_get stage1 ''started_at'')
                    then dict_set stage1 ''started_at'' (JStr (isoformat now)) else stage1);
          stage3 = (if status = ''completed''
                    then dict_set stage2 ''completed_at'' (JStr (isoformat now)) else stage2)
      in foldl (\<lambda>d (k, v). dict_set d k v) stage3 kwargs)"

definition update_stage ::
  "datetime \<Rightarrow> string \<Rightarrow> string \<Rightarrow> pydict \<Rightarrow> StateManager \<Rightarrow> py_exc option \<times> StateManager" where
  "update_stage now stage_key status kwargs sm =
     (if ''status'' \<in> fst ` set kwargs \<or> ''stage_key'' \<in> fst ` set kwargs
      then (Some (Exc ''update_stage() got multiple values for argument''), sm)
      else case sm_state sm of
        None \<Rightarrow> (None, sm)
      | Some s \<Rightarrow>
          let old = dict_get (stages (pipeline s)) stage_key;
              stage = stage_record now status kwargs (case old of None \<Rightarrow> [] | Some d \<Rightarrow> d)
          in case py_int (takeWhile (\<lambda>c. c \<noteq> CHR ''_'') stage_key) of
               None \<Rightarrow>
                 (Some (Exc ''invalid literal for int() with base 10''),
                  (case old of
                     None \<Rightarrow> sm
                   | Some d \<Rightarrow> sm\<lparr>sm_state := Some (s\<lparr>pipeline :=
                       (pipeline s)\<lparr>stages := dict_set (stages (pipeline s)) stage_key stage\<rparr>\<rparr>)\<rparr>))
             | Some stage_num \<Rightarrow>
                 (None,
                  save now (sm\<lparr>sm_state := Some (s\<lparr>pipeline :=
                    \<lparr>current_stage = (if status = ''completed'' then stage_num
                                       else current_stage (pipeline s)),
                     stages = dict_set (stages (pipeline s)) stage_key stage\<rparr>\<rparr>)\<rparr>)))"

definition get_stage_status :: "StateManager \<Rightarrow> string \<Rightarrow> json option" where
  "get_stage_status sm stage_key =
     (case sm_state sm of
        None \<Rightarrow> None
      | Some s \<Rightarrow> (case dict_get (stages (pipeline s)) stage_key of
                    None \<Rightarrow> None
                  | Some d \<Rightarrow> dict_get d ''status''))"

definition get_last_completed_stage :: "StateManager \<Rightarrow> int" where
  "get_last_completed_stage sm =
     (case sm_state sm of None \<Rightarrow> 0 | Some s \<Rightarrow> current_stage (pipeline s))"

definition can_run_stage :: "StateManager \<Rightarrow> int \<Rightarrow> bool" where
  "can_run_stage sm stage_num =
     (if stage_num = 1 then True else get_last_completed_stage sm \<ge> stage_num - 1)"

text \<open>
  \<open>update_statistics(**kwargs)\<close>: a number is added to an existing entry, anything
  else overwrites. \<open>bool\<close> is a subclass of \<open>int\<close>. Adding to an entry that is not a
  number raises \<open>TypeError\<close>; the entries handled before stay changed in memory and
  nothing is saved.
\<close>

fun as_number :: "json \<Rightarrow> int option" where
  "as_number (JInt i) = Some i"
| "as_number (JBool b) = Some (if b then 1 else 0)"
| "as_number _ = None"

fun accumulate :: "pydict \<Rightarrow> pydict \<Rightarrow> py_exc option \<times> pydict" where
  "accumulate stats [] = (None, stats)"
| "accumulate stats ((k, v) # kwargs) =
     (case dict_get stats k of
        None \<Rightarrow> accumulate (dict_set stats k v) kwargs
      | Some old \<Rightarrow>
          (case as_number v of
             None \<Rightarrow> accumulate (dict_set stats k v) kwargs
           | Some n \<Rightarrow>
               (case as_number old of
                  None \<Rightarrow> (Some (Exc ''unsupported operand type(s) for +=''), stats)
                | Some m \<Rightarrow> accumulate (dict_set stats k (JInt (m + n))) kwargs)))"

definition update_statistics ::
  "datetime \<Rightarrow> pydict \<Rightarrow> StateManager \<Rightarrow> py_exc option \<times> StateManager" where
  "update_statistics now kwargs sm =
     (case sm_state sm of
        None \<Rightarrow> (None, sm)
      | Some s \<Rightarrow>
          (case accumulate (statistics s) kwargs of
             (Some e, stats) \<Rightarrow> (Some e, sm\<lparr>sm_state := Some (s\<lparr>statistics := stats\<rparr>)\<rparr>)
           | (None, stats) \<Rightarrow> (None, save now (sm\<lparr>sm_state := Some (s\<lparr>statistics := stats\<rparr>)\<rparr>))))"

definition add_selected_material :: "datetime \<Rightarrow> string \<Rightarrow> StateManager \<Rightarrow> StateManager" where
  "add_selected_material now material_id sm =
     (case sm_state sm of
        None \<Rightarrow> sm
      | Some s \<Rightarrow>
          if material_id \<notin> set (selected (materials s))
          then save now (sm\<lparr>sm_state := Some (s\<lparr>materials :=
                 (materials s)\<lparr>selected := selected (materials s) @ [material_id]\<rparr>\<rparr>)\<rparr>)
          else sm)"

definition add_generated_material ::
  "datetime \<Rightarrow> string \<Rightarrow> string \<Rightarrow> StateManager \<Rightarrow> StateManager" where
  "add_generated_material now material_id file_path sm =
     (case sm_state sm of
        None \<Rightarrow> sm
      | Some s \<Rightarrow>
          save now (sm\<lparr>sm_state := Some (s\<lparr>materials :=
            (materials s)\<lparr>generated := generated (materials s) @
               [[(''id'', JStr material_id), (''file'', JStr file_path),
                 (''generated_at'', JStr (isoformat now))]]\<rparr>\<rparr>)\<rparr>))"

section \<open>The uniform stage boundary (stages/base.py)\<close>

record StageResult =
  success :: bool
  output_file :: "string option"
  tokens_used :: int
  error :: "string option"
  metadata :: "pydict option"

text \<open>The two class attributes of a stage that its state key is built from.\<close>

record Stage =
  stage_id :: int
  stage_name :: string

definition stage_key :: "Stage \<Rightarrow> string" where
  "stage_key st =
     str_int (stage_id st) @ ''_'' @
       (if CHR ''_'' \<in> set (stage_name st)
        then tl (dropWhile (\<lambda>c. c \<noteq> CHR ''_'') (stage_name st))
        else stage_name st)"

text \<open>
  What \<open>execute()\<close> does is a parameter: it receives the stage object and the state
  manager, raises or returns a result, and leaves both possibly changed (stage 10
  assigns \<open>self.stage_name\<close>, several stages write to the state).
\<close>

type_synonym execute_fn =
  "Stage \<Rightarrow> StateManager \<Rightarrow> (py_exc + StageResult) \<times> Stage \<times> StateManager"

definition opt_str :: "string option \<Rightarrow> json" where
  "opt_str x = (case x of None \<Rightarrow> JNull | Some s \<Rightarrow> JStr s)"

text \<open>The \<open>except Exception\<close> clause of \<open>run\<close>.\<close>

definition run_except ::
  "datetime \<Rightarrow> py_exc \<Rightarrow> Stage \<Rightarrow> StateManager \<Rightarrow> (py_exc + StageResult) \<times> Stage \<times> StateManager" where
  "run_except now e st sm =
     (case e of
        BaseExc m \<Rightarrow> (Inl e, st, sm)
      | Exc m \<Rightarrow>
          (case update_stage now (stage_key st) ''error'' [(''error_message'', JStr m)] sm of
             (Some e', sm') \<Rightarrow> (Inl e', st, sm')
           | (None, sm') \<Rightarrow>
               (Inr \<lparr>success = False, output_file = None, tokens_used = 0,
                     error = Some m, metadata = None\<rparr>, st, sm')))"

text \<open>
  \<open>BaseStage.run\<close>. \<open>t0\<close> is the clock when the stage is marked \<open>in_progress\<close>, \<open>t1\<close>
  the clock after \<open>execute()\<close> has returned or raised.
\<close>

definition run ::
  "execute_fn \<Rightarrow> datetime \<Rightarrow> datetime \<Rightarrow> Stage \<Rightarrow> StateManager \<Rightarrow>
     (py_exc + StageResult) \<times> Stage \<times> StateManager" where
  "run execute t0 t1 st sm =
     (case update_stage t0 (stage_key st) ''in_progress'' [] sm of
        (Some e, sm1) \<Rightarrow> run_except t1 e st sm1
      | (None, sm1) \<Rightarrow>
          (case execute st sm1 of
             (Inl e, st2, sm2) \<Rightarrow> run_except t1 e st2 sm2
           | (Inr result, st2, sm2) \<Rightarrow>
               if success result then
                 (case update_stage t1 (stage_key st2) ''completed''
                         [(''output_file'', opt_str (output_file result)),
                          (''tokens_used'', JInt (tokens_used result))] sm2 of
                    (Some e, sm3) \<Rightarrow> run_except t1 e st2 sm3
                  | (None, sm3) \<Rightarrow>
                      if tokens_used result > 0 then
                        (case update_statistics t1
                                [(''total_tokens_used'', JInt (tokens_used result)),
                                 (''total_api_calls'', JInt 1)] sm3 of
                           (Some e, sm4) \<Rightarrow> run_except t1 e st2 sm4
                         | (None, sm4) \<Rightarrow> (Inr result, st2, sm4))
                      else (Inr result, st2, sm3))
               else (Inr result, st2, sm2)))"

section \<open>The stage registry and the orchestrator (stages/\_\_init\_\_.py, pipeline.py)\<close>

text \<open>\<open>STAGES\<close>, each class by its \<open>stage_id\<close> and \<open>stage_name\<close>.\<close>

definition STAGES :: "(int \<times> Stage) list" where
  "STAGES =
     [(1, \<lparr>stage_id = 1, stage_name = ''01_load''\<rparr>),
      (2, \<lparr>stage_id = 2, stage_name = ''02_format''\<rparr>),
      (3, \<lparr>stage_id = 3, stage_name = ''03_compare''\<rparr>),
      (4, \<lparr>stage_id = 4, stage_name = ''04_plan''\<rparr>),
      (5, \<lparr>stage_id = 5, stage_name = ''05_write_section''\<rparr>),
      (6, \<lparr>stage_id = 6, stage_name = ''06_merge''\<rparr>),
      (7, \<lparr>stage_id = 7, stage_name = ''07_literary_edit''\<rparr>),
      (8, \<lparr>stage_id = 8, stage_name = ''08_marketing_analysis''\<rparr>),
      (9, \<lparr>stage_id = 9, stage_name = ''09_select''\<rparr>),
      (10, \<lparr>stage_id = 10, stage_name = ''10_generate''\<rparr>)]"

text \<open>
  \<open>create_stage(stage_num, **kwargs)\<close>, with the keyword arguments given by their names:
  \<open>LoadStage\<close> requires \<open>input_file\<close>, \<open>SelectStage\<close> accepts \<open>selected_materials\<close>, the
  other constructors accept nothing more; a name a constructor does not know, or a
  missing required one, is a \<open>TypeError\<close>.
\<close>

definition create_stage :: "int \<Rightarrow> string list \<Rightarrow> py_exc + Stage" where
  "create_stage stage_num kwargs =
     (case map_of STAGES stage_num of
        None \<Rightarrow> Inl (Exc (''Invalid stage number: '' @ str_int stage_num @ ''. Must be 1-10.''))
      | Some st \<Rightarrow>
          if (if stage_num = 1 then set kwargs = {''input_file''}
              else if stage_num = 9 then set kwargs \<subseteq> {''selected_materials''}
              else kwargs = [])
          then Inr st
          else Inl (Exc ''__init__() got an unexpected or missing keyword argument''))"

text \<open>
  \<open>Pipeline\<close>, reduced to the attribute \<open>run_stage\<close> tests and uses: the state manager
  of the loaded project (\<open>project_dir\<close> is set together with it by \<open>load_project\<close>).
\<close>

record Pipeline =
  state_manager :: "StateManager option"

text \<open>The \<open>ValueError\<close> raised when the requested stage may not run yet.\<close>

definition out_of_order :: "int \<Rightarrow> int \<Rightarrow> py_exc" where
  "out_of_order stage_num last_completed =
     Exc (''Cannot run stage '' @ str_int stage_num @ ''. Complete stage '' @
          str_int (last_completed + 1) @ '' first.'')"

definition run_stage ::
  "execute_fn \<Rightarrow> datetime \<Rightarrow> datetime \<Rightarrow> int \<Rightarrow> string list \<Rightarrow> Pipeline \<Rightarrow>
     (py_exc + StageResult) \<times> Pipeline" where
  "run_stage execute t0 t1 stage_num kwargs p =
     (case state_manager p of
        None \<Rightarrow> (Inl (Exc ''No project loaded''), p)
      | Some sm \<Rightarrow>
          if \<not> can_run_stage sm stage_num
          then (Inl (out_of_order stage_num (get_last_completed_stage sm)), p)
          else
            (case create_stage stage_num kwargs of
               Inl e \<Rightarrow> (Inl e, p)
             | Inr st \<Rightarrow>
                 (case run execute t0 t1 st sm of
                    (r, st', sm') \<Rightarrow> (r, p\<lparr>state_manager := Some sm'\<rparr>))))"

section \<open>Sequences of state-store operations\<close>

text \<open>
  The mutating operations of the state store, each with the clock reading of its call.
  An exception raised by an operation leaves the state as the operation left it.
\<close>

datatype store_op =
    UpdateStage string string pydict
  | UpdateStatistics pydict
  | AddSelectedMaterial string
  | AddGeneratedMaterial string string
  | Save

fun apply_op :: "datetime \<times> store_op \<Rightarrow> StateManager \<Rightarrow> StateManager" where
  "apply_op (now, UpdateStage k status kwargs) sm = snd (update_stage now k status kwargs sm)"
| "apply_op (now, UpdateStatistics kwargs) sm = snd (update_statistics now kwargs sm)"
| "apply_op (now, AddSelectedMaterial m) sm = add_selected_material now m sm"
| "apply_op (now, AddGeneratedMaterial m f) sm = add_generated_material now m f sm"
| "apply_op (now, Save) sm = save now sm"

definition run_ops :: "(datetime \<times> store_op) list \<Rightarrow> StateManager \<Rightarrow> StateManager" where
  "run_ops ops sm = foldl (\<lambda>s x. apply_op x s) sm ops"

text \<open>A clock and a freshly created project, for concrete runs.\<close>

definition clock_at :: "nat \<Rightarrow> datetime" where
  "clock_at n = \<lparr>year = 2024, month = 1, day = 1, hour = 0, minute = 0, second = n, microsecond = 0\<rparr>"

definition fresh_project :: StateManager where
  "fresh_project = create_new (clock_at 0) ''demo'' [] \<lparr>state_file = None, sm_state = None\<rparr>"


text \<open>The field \<open>f\<close> of the stage record stored under key \<open>k\<close>.\<close>

definition stage_field :: "StateManager \<Rightarrow> string \<Rightarrow> string \<Rightarrow> json option" where
  "stage_field sm k f = (case sm_state sm of None \<Rightarrow> None
     | Some s \<Rightarrow> (case dict_get (stages (pipeline s)) k of None \<Rightarrow> None | Some d \<Rightarrow> dict_get d f))"


text \<open>The keys of \<open>pipeline["stages"]\<close>, in insertion order.\<close>

definition stage_keys :: "StateManager \<Rightarrow> string list" where
  "stage_keys sm = (case sm_state sm of None \<Rightarrow> [] | Some s \<Rightarrow> map fst (stages (pipeline s)))"

text \<open>
  Two stage bodies for concrete runs: one returns a successful result that used no
  tokens, one raises an \<open>Exception\<close> with the given message; neither touches the
  stage object or the state.
\<close>

definition ok_result :: StageResult where
  "ok_result = \<lparr>success = True, output_file = None, tokens_used = 0, error = None, metadata = None\<rparr>"

definition execute_ok :: execute_fn where
  "execute_ok st sm = (Inr ok_result, st, sm)"

definition execute_raises :: "string \<Rightarrow> execute_fn" where
  "execute_raises m st sm = (Inl (Exc m), st, sm)"

section \<open>Stage 4: the article plan (stages/s04\_plan.py)\<close>

text \<open>
  \<open>LLMResult\<close>; its fields \<open>tokens_used\<close> and \<open>stage\<close> are written \<open>llm_tokens\<close> and
  \<open>llm_stage\<close> here.
\<close>

record LLMResult =
  content :: string
  llm_tokens :: int
  llm_stage :: string
  prompt_source :: string

subsection \<open>\<open>_extract_json\<close>\<close>

text \<open>
  \<open>text.partition(pat)\<close> when \<open>pat\<close> occurs: the text before the first occurrence and
  the text after it.
\<close>

fun partition_at :: "string \<Rightarrow> string \<Rightarrow> (string \<times> string) option" where
  "partition_at pat [] = (if pat = [] then Some ([], []) else None)"
| "partition_at pat (c # cs) =
     (if take (length pat) (c # cs) = pat then Some ([], drop (length pat) (c # cs))
      else map_option (\<lambda>(a, b). (c # a, b)) (partition_at pat cs))"

text \<open>The characters \<open>\s\<close> matches in a \<open>str\<close> pattern, and \<open>str.strip\<close> removes.\<close>

definition uni_space :: "char \<Rightarrow> bool" where
  "uni_space c = ((of_char c :: nat) \<in> {9, 10, 11, 12, 13, 28, 29, 30, 31, 32, 133, 160})"

definition fence :: string where
  "fence = [CHR 0x60, CHR 0x60, CHR 0x60]"

text \<open>
  Group 1 of \<open>re.search(r'```(?:json)?\s*\n?(.*?)\n?```', text, re.DOTALL)\<close>. The match
  starts at the first fence; \<open>json\<close> is taken when it follows, then all the white space
  after it (which leaves nothing for the first \<open>\n?\<close>); the lazy group runs up to the
  next fence, without the line feed right before that fence. When no fence closes the
  block, giving back \<open>json\<close> or white space opens no other match, nor does a later
  start, and the search fails.
\<close>

definition code_block :: "string \<Rightarrow> string option" where
  "code_block text =
     (case partition_at fence text of
        None \<Rightarrow> None
      | Some (before, r) \<Rightarrow>
          let r1 = (if take 4 r = ''json'' then drop 4 r else r);
              r2 = dropWhile uni_space r1
          in case partition_at fence r2 of
               None \<Rightarrow> None
             | Some (g, after) \<Rightarrow> Some (if g \<noteq> [] \<and> last g = CHR 0x0A then butlast g else g))"

text \<open>
  Group 0 of \<open>re.search(r'\{.*\}', text, re.DOTALL)\<close>: from the first \<open>{\<close> to the last
  \<open>}\<close>, when there is one after that \<open>{\<close>.
\<close>

definition brace_span :: "string \<Rightarrow> string option" where
  "brace_span text =
     (let r = dropWhile (\<lambda>c. c \<noteq> CHR ''{'') text
      in if r \<noteq> [] \<and> CHR ''}'' \<in> set (tl r)
         then Some (rev (dropWhile (\<lambda>c. c \<noteq> CHR ''}'') (rev r))) else None)"

text \<open>
  \<open>json.loads\<close> is a parameter: it returns the parsed value or raises
  \<open>JSONDecodeError\<close>.
\<close>

definition extract_json :: "(string \<Rightarrow> py_exc + json) \<Rightarrow> string \<Rightarrow> py_exc + json" where
  "extract_json json_loads text =
     json_loads (case code_block text of
                   Some g \<Rightarrow> g
                 | None \<Rightarrow> (case brace_span text of Some g \<Rightarrow> g | None \<Rightarrow> text))"

subsection \<open>\<open>_validate_plan\<close>\<close>

text \<open>\<open>k in s\<close> for two strings: \<open>k\<close> occurs in \<open>s\<close>.\<close>

fun substring :: "string \<Rightarrow> string \<Rightarrow> bool" where
  "substring k [] = (k = [])"
| "substring k (c # cs) = (take (length k) (c # cs) = k \<or> substring k cs)"

text \<open>The name of the Python type of a parsed JSON value, and a text in single quotes.\<close>

fun type_name :: "json \<Rightarrow> string" where
  "type_name JNull = ''NoneType''"
| "type_name (JBool b) = ''bool''"
| "type_name (JInt i) = ''int''"
| "type_name (JStr s) = ''str''"
| "type_name (JList xs) = ''list''"
| "type_name (JObj kvs) = ''dict''"

definition quoted :: "string \<Rightarrow> string" where
  "quoted s = CHR 0x27 # s @ [CHR 0x27]"

text \<open>
  \<open>k in x\<close> for a string \<open>k\<close> and a parsed JSON value \<open>x\<close>: a key of a dictionary, an
  element of a list, a piece of a string; \<open>TypeError\<close> for \<open>None\<close>, a truth value
  and a number.
\<close>

fun py_in :: "string \<Rightarrow> json \<Rightarrow> py_exc + bool" where
  "py_in k (JObj kvs) = Inr (k \<in> fst ` set kvs)"
| "py_in k (JList xs) = Inr (JStr k \<in> set xs)"
| "py_in k (JStr s) = Inr (substring k s)"
| "py_in k other = Inl (Exc (''argument of type '' @ quoted (type_name other) @ '' is not iterable''))"

text \<open>\<open>x[k]\<close> for a string \<open>k\<close>; the text of a \<open>KeyError\<close> is the key in quotes.\<close>

fun py_getitem :: "json \<Rightarrow> string \<Rightarrow> py_exc + json" where
  "py_getitem (JObj kvs) k = (case dict_get kvs k of None \<Rightarrow> Inl (Exc (quoted k)) | Some v \<Rightarrow> Inr v)"
| "py_getitem (JList xs) k = Inl (Exc ''list indices must be integers or slices, not str'')"
| "py_getitem (JStr s) k = Inl (Exc (''string indices must be integers, not '' @ quoted ''str''))"
| "py_getitem other k = Inl (Exc (quoted (type_name other) @ '' object is not subscriptable''))"

text \<open>The loop over the sections: each must have \<open>title\<close> and \<open>key_points\<close> in it.\<close>

fun validate_sections :: "json list \<Rightarrow> py_exc + bool" where
  "validate_sections [] = Inr True"
| "validate_sections (section # rest) =
     (case py_in ''title'' section of
        Inl e \<Rightarrow> Inl e
      | Inr t \<Rightarrow>
          if \<not> t then Inr False
          else (case py_in ''key_points'' section of
                  Inl e \<Rightarrow> Inl e
                | Inr p \<Rightarrow> if \<not> p then Inr False else validate_sections rest))"

definition validate_plan :: "json \<Rightarrow> py_exc + bool" where
  "validate_plan plan =
     (case py_in ''title'' plan of
        Inl e \<Rightarrow> Inl e
      | Inr t \<Rightarrow>
          if \<not> t then Inr False
          else (case py_in ''sections'' plan of
                  Inl e \<Rightarrow> Inl e
                | Inr s \<Rightarrow>
                    if \<not> s then Inr False
                    else (case py_getitem plan ''sections'' of
                            Inl e \<Rightarrow> Inl e
                          | Inr (JList secs) \<Rightarrow>
                              if secs = [] then Inr False else validate_sections secs
                          | Inr other \<Rightarrow> Inr False)))"

subsection \<open>\<open>_save_plan_markdown\<close> and \<open>execute\<close>\<close>

text \<open>
  What a \<open>for\<close> loop over a value raises and what it runs through (the elements of
  a list, the characters of a string, the keys of a dictionary); what
  \<open>', '.join(v)\<close> raises; \<open>d.get(k)\<close> of a dictionary.
\<close>

fun iter_error :: "json \<Rightarrow> py_exc option" where
  "iter_error (JStr s) = None"
| "iter_error (JList xs) = None"
| "iter_error (JObj kvs) = None"
| "iter_error other = Some (Exc (quoted (type_name other) @ '' object is not iterable''))"

fun elements :: "json \<Rightarrow> json list" where
  "elements (JList xs) = xs"
| "elements (JStr s) = map (\<lambda>c. JStr [c]) s"
| "elements (JObj kvs) = map (\<lambda>(k, v). JStr k) kvs"
| "elements other = []"

fun is_str :: "json \<Rightarrow> bool" where
  "is_str (JStr s) = True"
| "is_str other = False"

fun join_items :: "nat \<Rightarrow> json list \<Rightarrow> py_exc option" where
  "join_items i [] = None"
| "join_items i (x # xs) =
     (if is_str x then join_items (Suc i) xs
      else Some (Exc (''sequence item '' @ str_nat i @ '': expected str instance, '' @
                      type_name x @ '' found'')))"

fun join_error :: "json \<Rightarrow> py_exc option" where
  "join_error (JStr s) = None"
| "join_error (JObj kvs) = None"
| "join_error (JList xs) = join_items 0 xs"
| "join_error other = Some (Exc ''can only join an iterable'')"

fun py_get :: "json \<Rightarrow> string \<Rightarrow> json option" where
  "py_get (JObj kvs) k = dict_get kvs k"
| "py_get other k = None"

text \<open>
  \<open>_save_plan_markdown\<close>, as far as it can raise; the text it writes to
  \<open>04_plan_readable.md\<close> is not part of the model. \<open>get\<close> is reached on dictionaries
  only, since \<open>plan['title']\<close> and \<open>section['title']\<close> come first.
\<close>

fun markdown_sections :: "json list \<Rightarrow> py_exc option" where
  "markdown_sections [] = None"
| "markdown_sections (section # rest) =
     (case py_getitem section ''title'' of
        Inl e \<Rightarrow> Some e
      | Inr title \<Rightarrow>
          if truthy (py_get section ''key_points'')
          then (case py_getitem section ''key_points'' of
                  Inl e \<Rightarrow> Some e
                | Inr points \<Rightarrow>
                    (case iter_error points of Some e \<Rightarrow> Some e | None \<Rightarrow> markdown_sections rest))
          else markdown_sections rest)"

definition save_plan_markdown :: "json \<Rightarrow> py_exc option" where
  "save_plan_markdown plan =
     (case py_getitem plan ''title'' of
        Inl e \<Rightarrow> Some e
      | Inr title \<Rightarrow>
          (case (if truthy (py_get plan ''tags'')
                 then (case py_getitem plan ''tags'' of Inl e \<Rightarrow> Some e | Inr tags \<Rightarrow> join_error tags)
                 else None) of
             Some e \<Rightarrow> Some e
           | None \<Rightarrow>
               (case py_getitem plan ''sections'' of
                  Inl e \<Rightarrow> Some e
                | Inr secs \<Rightarrow>
                    (case iter_error secs of
                       Some e \<Rightarrow> Some e
                     | None \<Rightarrow> markdown_sections (elements secs)))))"

text \<open>
  \<open>PlanStage.execute\<close>. \<open>read_input\<close> is what reading \<open>03_corrected.md\<close> gives (the
  text, or the exception for a missing file), \<open>call_llm\<close> the model call. The second
  component of the result is what this call has written to \<open>04_plan.json\<close>, \<open>None\<close>
  when it has not written the file.
\<close>

definition PlanStage_execute ::
  "(py_exc + string) \<Rightarrow> (string \<Rightarrow> py_exc + LLMResult) \<Rightarrow> (string \<Rightarrow> py_exc + json) \<Rightarrow>
     (py_exc + StageResult) \<times> json option" where
  "PlanStage_execute read_input call_llm json_loads =
     (case read_input of
        Inl e \<Rightarrow> (Inl e, None)
      | Inr transcript \<Rightarrow>
     (case call_llm transcript of
        Inl e \<Rightarrow> (Inl e, None)
      | Inr result \<Rightarrow>
     (case extract_json json_loads (content result) of
        Inl e \<Rightarrow> (Inl e, None)
      | Inr plan \<Rightarrow>
     (case validate_plan plan of
        Inl e \<Rightarrow> (Inl e, None)
      | Inr valid \<Rightarrow>
          if \<not> valid
          then (Inr \<lparr>success = False, output_file = None, tokens_used = 0,
                     error = Some ''Invalid plan structure returned by LLM'', metadata = None\<rparr>,
                None)
          else (case save_plan_markdown plan of
                  Some e \<Rightarrow> (Inl e, Some plan)
                | None \<Rightarrow>
                    (Inr \<lparr>success = True, output_file = Some ''04_plan.json'',
                          tokens_used = llm_tokens result, error = None,
                          metadata = Some [(''sections_count'',
                            JInt (int (length (elements
                              (case py_get plan ''sections'' of Some v \<Rightarrow> v | None \<Rightarrow> JList [])))))]\<rparr>,
                     Some plan))))))"

text \<open>The same as the body of a stage: it leaves the stage object and the state alone.\<close>

definition plan_stage ::
  "(py_exc + string) \<Rightarrow> (string \<Rightarrow> py_exc + LLMResult) \<Rightarrow> (string \<Rightarrow> py_exc + json) \<Rightarrow> execute_fn" where
  "plan_stage read_input call_llm json_loads st sm =
     (fst (PlanStage_execute read_input call_llm json_loads), st, sm)"

section \<open>Concrete inputs\<close>

text \<open>
  Stand-ins for the model call and for \<open>json.loads\<close> in concrete runs: a model that
  answers every transcript with the same reply, and a parser given by a table of the
  texts it accepts.
\<close>

definition example_llm :: "string \<Rightarrow> string \<Rightarrow> py_exc + LLMResult" where
  "example_llm reply transcript =
     Inr \<lparr>content = reply, llm_tokens = 7, llm_stage = ''04_plan'', prompt_source = ''default''\<rparr>"

definition example_loads :: "(string \<times> json) list \<Rightarrow> string \<Rightarrow> py_exc + json" where
  "example_loads table s =
     (case map_of table s of Some v \<Rightarrow> Inr v | None \<Rightarrow> Inl (Exc ''Expecting value''))"

text \<open>A reply that is a JSON object with a title and no sections.\<close>

definition reply_without_sections :: string where
  \<open>reply_without_sections = ''{"title": "T"}''\<close>

text \<open>
  A pipeline on a fresh project: stage 1 and stage 2 run with success, then stage 1
  runs again and raises.
\<close>

definition pipeline_status :: "Pipeline \<Rightarrow> string \<Rightarrow> json option" where
  "pipeline_status p k = (case state_manager p of None \<Rightarrow> None | Some sm \<Rightarrow> get_stage_status sm k)"

definition after_stage_1 :: Pipeline where
  "after_stage_1 = snd (run_stage execute_ok (clock_at 1) (clock_at 2) 1 [''input_file'']
                          \<lparr>state_manager = Some fresh_project\<rparr>)"

definition after_stage_2 :: Pipeline where
  "after_stage_2 = snd (run_stage execute_ok (clock_at 3) (clock_at 4) 2 [] after_stage_1)"

definition after_failed_rerun :: Pipeline where
  "after_failed_rerun = snd (run_stage (execute_raises ''disk full'') (clock_at 5) (clock_at 6) 1
                               [''input_file''] after_stage_2)"

section \<open>Decimal text: \<open>int(str(i))\<close> is \<open>i\<close>\<close>

lemma of_char_digit_char: "(of_char (digit_char d) :: nat) = 48 + d mod 10"
  by (simp add: digit_char_def)

lemma is_digit_digit_char: "is_digit (digit_char d)"
  by (simp add: is_digit_def of_char_digit_char)

lemma digit_char_not_space: "\<not> int_space (digit_char d)"
  by (simp add: int_space_def of_char_digit_char) presburger

lemma digit_not_space: "is_digit c \<Longrightarrow> \<not> int_space c"
  by (auto simp: is_digit_def int_space_def)

lemma digit_not_underscore: "is_digit c \<Longrightarrow> c \<noteq> CHR ''_''"
  by (auto simp: is_digit_def)

lemma str_nat_digits: "list_all is_digit (str_nat n)"
  by (induction n rule: str_nat.induct) (subst str_nat.simps, simp add: is_digit_digit_char)

lemma str_nat_not_Nil: "str_nat n \<noteq> []"
  by (subst str_nat.simps) simp

lemma digits_val_snoc: "digits_val (xs @ [c]) = 10 * digits_val xs + ((of_char c :: nat) - 48)"
  by (simp add: digits_val_def)

lemma digits_val_str_nat: "digits_val (str_nat n) = n"
proof (induction n rule: str_nat.induct)
  case (1 n)
  show ?case
  proof (cases "n < 10")
    case True
    then show ?thesis by (subst str_nat.simps) (simp add: digits_val_def of_char_digit_char)
  next
    case False
    with 1 have "digits_val (str_nat (n div 10)) = n div 10" by simp
    with False show ?thesis
      by (subst str_nat.simps) (simp add: digits_val_snoc of_char_digit_char)
  qed
qed

lemma grouped_digits: "s \<noteq> [] \<Longrightarrow> list_all is_digit s \<Longrightarrow> grouped s"
  by (induction s rule: grouped.induct) (auto simp: digit_not_underscore)

lemma filter_digits: "list_all is_digit s \<Longrightarrow> filter is_digit s = s"
  by (induction s) auto

lemma unsigned_int_str_nat: "unsigned_int (str_nat n) = Some n"
  by (simp add: unsigned_int_def grouped_digits str_nat_not_Nil str_nat_digits filter_digits
      digits_val_str_nat)

lemma strip_int_ends:
  assumes "s \<noteq> []" and "\<not> int_space (hd s)" and "\<not> int_space (last s)"
  shows "strip_int s = s"
proof -
  from assms have a: "dropWhile int_space s = s" by (cases s) auto
  from assms have "dropWhile int_space (rev s) = rev s" by (cases "rev s") (auto simp: last_rev [symmetric] simp del: last_rev)
  with a show ?thesis by (simp add: strip_int_def)
qed

lemma str_nat_ends: "is_digit (hd (str_nat n)) \<and> is_digit (last (str_nat n))"
  using str_nat_digits [of n] str_nat_not_Nil [of n]
  by (metis hd_in_set last_in_set list_all_iff)

lemma strip_int_str_int: "strip_int (str_int i) = str_int i"
proof (rule strip_int_ends)
  show "str_int i \<noteq> []" by (simp add: str_int_def str_nat_not_Nil)
  show "\<not> int_space (hd (str_int i))"
    using str_nat_ends [of "nat i"] by (auto simp: str_int_def int_space_def dest: digit_not_space)
  show "\<not> int_space (last (str_int i))"
    using str_nat_ends by (auto simp: str_int_def str_nat_not_Nil dest: digit_not_space)
qed

lemma py_int_str_int: "py_int (str_int i) = Some i"
proof (cases "i < 0")
  case True
  then show ?thesis
    using strip_int_str_int [of i] by (simp add: py_int_def str_int_def unsigned_int_str_nat)
next
  case False
  obtain c cs where c: "str_nat (nat i) = c # cs" using str_nat_not_Nil [of "nat i"] by (cases "str_nat (nat i)") auto
  with str_nat_digits [of "nat i"] have "is_digit c" by simp
  then have "c \<noteq> CHR ''-''" "c \<noteq> CHR ''+''" by (auto simp: is_digit_def)
  with False c show ?thesis
    using strip_int_str_int [of i] unsigned_int_str_nat [of "nat i"] by (simp add: py_int_def str_int_def)
qed

lemma str_int_no_underscore: "CHR ''_'' \<notin> set (str_int i)"
  using str_nat_digits by (auto simp: str_int_def list_all_iff dest: digit_not_underscore)

lemma takeWhile_prefix: "x \<notin> set xs \<Longrightarrow> takeWhile (\<lambda>c. c \<noteq> x) (xs @ x # ys) = xs"
  by (induction xs) auto

lemma stage_key_number: "py_int (takeWhile (\<lambda>c. c \<noteq> CHR ''_'') (stage_key st)) = Some (stage_id st)"
proof -
  obtain ys where "stage_key st = str_int (stage_id st) @ CHR ''_'' # ys"
    by (simp add: stage_key_def)
  then show ?thesis
    by (simp only: takeWhile_prefix [OF str_int_no_underscore] py_int_str_int)
qed

section \<open>Dictionaries and the state store: basic facts\<close>

lemma dict_get_set: "dict_get (dict_set d k v) k' = (if k' = k then Some v else dict_get d k')"
  by (simp add: dict_get_def dict_set_def update_conv')

lemma dict_get_kwargs:
  "k \<notin> fst ` set kwargs \<Longrightarrow> dict_get (foldl (\<lambda>d (k, v). dict_set d k v) d kwargs) k = dict_get d k"
  by (induction kwargs arbitrary: d) (auto simp: dict_get_set)

lemma keys_dict_set: "fst ` set (dict_set d k v) = insert k (fst ` set d)"
  by (simp add: dict_set_def dom_update)

lemma last_completed_save [simp]: "get_last_completed_stage (save now sm) = get_last_completed_stage sm"
  by (simp add: get_last_completed_stage_def save_def Let_def split: option.splits)

lemma stage_status_save [simp]: "get_stage_status (save now sm) k = get_stage_status sm k"
  by (simp add: get_stage_status_def save_def Let_def split: option.splits)

lemma stage_record_status:
  "''status'' \<notin> fst ` set kwargs \<Longrightarrow> dict_get (stage_record now status kwargs d) ''status'' = Some (JStr status)"
  by (simp add: stage_record_def Let_def dict_get_kwargs dict_get_set)

lemma update_stage_current:
  assumes "update_stage now k status kwargs sm = (r, sm')"
    and "get_last_completed_stage sm' \<noteq> get_last_completed_stage sm"
  shows "status = ''completed'' \<and> r = None
       \<and> py_int (takeWhile (\<lambda>c. c \<noteq> CHR ''_'') k) = Some (get_last_completed_stage sm')
       \<and> get_stage_status sm' k = Some (JStr ''completed'')"
  using assms
  by (auto simp: update_stage_def Let_def get_last_completed_stage_def get_stage_status_def save_def
      dict_get_set stage_record_status split: option.splits if_splits)

lemma update_stage_error_keeps:
  "status \<noteq> ''completed'' \<Longrightarrow> get_last_completed_stage (snd (update_stage now k status kwargs sm)) = get_last_completed_stage sm"
  by (auto simp: update_stage_def Let_def get_last_completed_stage_def save_def split: option.splits)

lemma apply_op_current:
  assumes "get_last_completed_stage (apply_op x sm) \<noteq> get_last_completed_stage sm"
  shows "\<exists>now k kw. x = (now, UpdateStage k ''completed'' kw)
       \<and> py_int (takeWhile (\<lambda>c. c \<noteq> CHR ''_'') k) = Some (get_last_completed_stage (apply_op x sm))
       \<and> get_stage_status (apply_op x sm) k = Some (JStr ''completed'')"
proof (cases x)
  case (Pair now op)
  show ?thesis
  proof (cases op)
    case (UpdateStage k status kwargs)
    obtain r sm' where u: "update_stage now k status kwargs sm = (r, sm')"
      by (cases "update_stage now k status kwargs sm")
    with assms Pair UpdateStage have "get_last_completed_stage sm' \<noteq> get_last_completed_stage sm"
      by simp
    from update_stage_current [OF u this] u Pair UpdateStage show ?thesis by simp
  next
    case (UpdateStatistics kw)
    with assms Pair show ?thesis
      by (auto simp: update_statistics_def get_last_completed_stage_def save_def Let_def split: option.splits prod.splits)
  next
    case (AddSelectedMaterial m)
    with assms Pair show ?thesis
      by (auto simp: add_selected_material_def get_last_completed_stage_def save_def Let_def split: option.splits if_splits)
  next
    case (AddGeneratedMaterial m f)
    with assms Pair show ?thesis
      by (auto simp: add_generated_material_def get_last_completed_stage_def save_def Let_def split: option.splits)
  next
    case Save
    with assms Pair show ?thesis by simp
  qed
qed

lemma run_ops_take_Suc: "i < length ops \<Longrightarrow> run_ops (take (Suc i) ops) sm = apply_op (ops ! i) (run_ops (take i ops) sm)"
  by (simp add: run_ops_def take_Suc_conv_app_nth)

text \<open>
  Claim C2, as amended. Across every sequence of state-store operations
  (\<open>update_stage\<close>, \<open>update_statistics\<close>, the two material appends, \<open>save\<close>; the
  generic \<open>set(path, value)\<close>, which nothing calls, is not one of them), the step that
  changes \<open>current_stage\<close> is an \<open>update_stage\<close> with status \<open>completed\<close>, and the
  new value \<open>N\<close> is the number at the front of its key. When that key is one of the
  ten keys seeded at project creation, it is the key of stage \<open>N\<close>, and stage \<open>N\<close>'s
  sub-record has status \<open>completed\<close> after the step. Nothing says the new value is
  larger than the old one.
\<close>

theorem current_stage_step:
  assumes "i < length ops"
    and "get_last_completed_stage (run_ops (take (Suc i) ops) sm)
           \<noteq> get_last_completed_stage (run_ops (take i ops) sm)"
  shows "\<exists>now k kw. ops ! i = (now, UpdateStage k ''completed'' kw)
       \<and> py_int (takeWhile (\<lambda>c. c \<noteq> CHR ''_'') k)
           = Some (get_last_completed_stage (run_ops (take (Suc i) ops) sm))
       \<and> (k \<in> fst ` set seeded_stages \<longrightarrow>
            get_stage_status (run_ops (take (Suc i) ops) sm) k = Some (JStr ''completed''))"
  using assms apply_op_current [of "ops ! i" "run_ops (take i ops) sm"]
  by (auto simp: run_ops_take_Suc)

lemma sm_state_save: "sm_state (save now sm) = map_option (\<lambda>s. s\<lparr>updated_at := now\<rparr>) (sm_state sm)"
  by (simp add: save_def Let_def split: option.splits)

lemma fresh_state: "sm_state fresh_project \<noteq> None"
  by (simp add: fresh_project_def create_new_def sm_state_save)

lemma update_stage_keeps_state: "sm_state sm \<noteq> None \<Longrightarrow> sm_state (snd (update_stage now k st kw sm)) \<noteq> None"
  by (auto simp: update_stage_def Let_def sm_state_save split: option.splits)

lemma update_stage_completed:
  assumes "sm_state sm \<noteq> None" and "''status'' \<notin> fst ` set kw" and "''stage_key'' \<notin> fst ` set kw"
    and "py_int (takeWhile (\<lambda>c. c \<noteq> CHR ''_'') k) = Some n"
  shows "get_last_completed_stage (snd (update_stage now k ''completed'' kw sm)) = n"
  using assms
  by (auto simp: update_stage_def Let_def get_last_completed_stage_def sm_state_save split: option.splits)

lemma py_int_1: "py_int (takeWhile (\<lambda>c. c \<noteq> CHR ''_'') ''1_load'') = Some 1"
  by (simp add: py_int_def strip_int_def int_space_def unsigned_int_def is_digit_def digits_val_def)

lemma py_int_2: "py_int (takeWhile (\<lambda>c. c \<noteq> CHR ''_'') ''2_format'') = Some 2"
  by (simp add: py_int_def strip_int_def int_space_def unsigned_int_def is_digit_def digits_val_def)

text \<open>
  Claim C2 as stated fails: completing stage 1 again after stage 2 lowers
  \<open>current_stage\<close> from 2 to 1.
\<close>

theorem current_stage_decrease_counterexample: "get_last_completed_stage
     (run_ops [(clock_at 1, UpdateStage ''2_format'' ''completed'' []),
               (clock_at 2, UpdateStage ''1_load'' ''completed'' [])] fresh_project)
   < get_last_completed_stage
     (run_ops [(clock_at 1, UpdateStage ''2_format'' ''completed'' [])] fresh_project)"
proof -
  let ?a = "snd (update_stage (clock_at 1) ''2_format'' ''completed'' [] fresh_project)"
  have a: "get_last_completed_stage ?a = 2"
    by (rule update_stage_completed [OF fresh_state _ _ py_int_2]) simp_all
  have "sm_state ?a \<noteq> None"
    by (rule update_stage_keeps_state [OF fresh_state])
  then have "get_last_completed_stage (snd (update_stage (clock_at 2) ''1_load'' ''completed'' [] ?a)) = 1"
    by (rule update_stage_completed [OF _ _ _ py_int_1]) simp_all
  with a show ?thesis by (simp add: run_ops_def)
qed

lemma fresh_current: "get_last_completed_stage fresh_project = 0"
  by (simp add: fresh_project_def create_new_def get_last_completed_stage_def sm_state_save)

lemma str_int_small:
  "str_int 1 = ''1''" "str_int 2 = ''2''" "str_int 3 = ''3''" "str_int 4 = ''4''" "str_int 5 = ''5''"
  "str_int 6 = ''6''" "str_int 7 = ''7''" "str_int 8 = ''8''" "str_int 9 = ''9''" "str_int 10 = ''10''"
  by code_simp+

lemma seeded_stages_eq:
  "seeded_stages = map (\<lambda>k. (k, [(''status'', JStr ''pending'')]))
     [''1_load'', ''2_format'', ''3_compare'', ''4_plan'', ''5_write'',
      ''6_merge'', ''7_edit'', ''8_analyze'', ''9_select'', ''10_generate'']"
  by (simp add: seeded_stages_def stage_names_def dict_set_def str_int_small upt_rec_numeral)

text \<open>
  Completing stage 1 in a fresh project: \<open>current_stage\<close> changes, the key is the
  seeded key of stage 1, and the record of stage 1 is \<open>completed\<close>.
\<close>

theorem current_stage_step_witness:
  "get_last_completed_stage
     (run_ops (take (Suc 0) [(clock_at 1, UpdateStage ''1_load'' ''completed'' [])]) fresh_project)
   \<noteq> get_last_completed_stage
     (run_ops (take 0 [(clock_at 1, UpdateStage ''1_load'' ''completed'' [])]) fresh_project)
   \<and> ''1_load'' \<in> fst ` set seeded_stages
   \<and> py_int (takeWhile (\<lambda>c. c \<noteq> CHR ''_'') ''1_load'')
       = Some (get_last_completed_stage
           (run_ops (take (Suc 0) [(clock_at 1, UpdateStage ''1_load'' ''completed'' [])]) fresh_project))
   \<and> get_stage_status
       (run_ops (take (Suc 0) [(clock_at 1, UpdateStage ''1_load'' ''completed'' [])]) fresh_project)
       ''1_load'' = Some (JStr ''completed'')"
proof -
  let ?ops = "[(clock_at 1, UpdateStage ''1_load'' ''completed'' [])]"
  have "get_last_completed_stage (snd (update_stage (clock_at 1) ''1_load'' ''completed'' [] fresh_project)) = 1"
    by (rule update_stage_completed [OF fresh_state _ _ py_int_1]) simp_all
  then have ne: "get_last_completed_stage (run_ops (take (Suc 0) ?ops) fresh_project)
      \<noteq> get_last_completed_stage (run_ops (take 0 ?ops) fresh_project)"
    by (simp add: run_ops_def fresh_current)
  have len: "0 < length ?ops" by simp
  have k: "''1_load'' \<in> fst ` set seeded_stages" by (simp add: seeded_stages_eq)
  from current_stage_step [OF len ne] obtain now k kw where
    "?ops ! 0 = (now, UpdateStage k ''completed'' kw)"
    "py_int (takeWhile (\<lambda>c. c \<noteq> CHR ''_'') k)
       = Some (get_last_completed_stage (run_ops (take (Suc 0) ?ops) fresh_project))"
    "k \<in> fst ` set seeded_stages \<longrightarrow>
       get_stage_status (run_ops (take (Suc 0) ?ops) fresh_project) k = Some (JStr ''completed'')"
    by blast
  with ne k show ?thesis by simp
qed

section \<open>Timestamps of a stage record\<close>

lemma stage_field_update_other:
  "k' \<noteq> k \<Longrightarrow> stage_field (snd (update_stage now k status kwargs sm)) k' f = stage_field sm k' f"
  by (auto simp: update_stage_def Let_def stage_field_def sm_state_save dict_get_set split: option.splits)

lemma stage_record_started:
  "''started_at'' \<notin> fst ` set kwargs \<Longrightarrow>
   dict_get (stage_record now status kwargs d) ''started_at''
     = (if status = ''in_progress'' \<and> \<not> truthy (dict_get d ''started_at'')
        then Some (JStr (isoformat now)) else dict_get d ''started_at'')"
  by (simp add: stage_record_def Let_def dict_get_kwargs dict_get_set)

lemma stage_record_completed:
  "''completed_at'' \<notin> fst ` set kwargs \<Longrightarrow>
   dict_get (stage_record now status kwargs d) ''completed_at''
     = (if status = ''completed'' then Some (JStr (isoformat now)) else dict_get d ''completed_at'')"
  by (simp add: stage_record_def Let_def dict_get_kwargs dict_get_set)

lemma stage_field_update:
  assumes "update_stage now k status kwargs sm = (None, sm')" and "sm_state sm \<noteq> None"
  shows "stage_field sm' k f = dict_get (stage_record now status kwargs
           (case sm_state sm of None \<Rightarrow> [] | Some s \<Rightarrow>
              (case dict_get (stages (pipeline s)) k of None \<Rightarrow> [] | Some d \<Rightarrow> d))) f"
  using assms
  by (auto simp: update_stage_def Let_def stage_field_def sm_state_save dict_get_set split: option.splits if_splits)

lemma dict_get_Nil [simp]: "dict_get [] k = None"
  by (simp add: dict_get_def)

text \<open>
  Claim C9, as amended. For an \<open>update_stage\<close> call that raises nothing and passes
  neither timestamp as a keyword argument: \<open>started_at\<close> is written only when the status
  is \<open>in_progress\<close> and the record holds no start time yet, and is kept otherwise;
  \<open>completed_at\<close> is written at every update to \<open>completed\<close> and kept otherwise; an
  update to \<open>error\<close> leaves \<open>current_stage\<close> as it was.
\<close>

theorem timestamps_update_stage:
  assumes "update_stage now k status kwargs sm = (None, sm')" and "sm_state sm \<noteq> None"
    and "''started_at'' \<notin> fst ` set kwargs" and "''completed_at'' \<notin> fst ` set kwargs"
  shows "stage_field sm' k ''started_at''
           = (if status = ''in_progress'' \<and> \<not> truthy (stage_field sm k ''started_at'')
              then Some (JStr (isoformat now)) else stage_field sm k ''started_at'')
       \<and> stage_field sm' k ''completed_at''
           = (if status = ''completed'' then Some (JStr (isoformat now))
              else stage_field sm k ''completed_at'')
       \<and> (status = ''error'' \<longrightarrow> get_last_completed_stage sm' = get_last_completed_stage sm)"
proof -
  from assms(2) obtain s where s: "sm_state sm = Some s" by auto
  have f: "stage_field sm k g = dict_get (case dict_get (stages (pipeline s)) k of None \<Rightarrow> [] | Some d \<Rightarrow> d) g" for g
    by (simp add: stage_field_def s split: option.splits)
  have e: "status = ''error'' \<longrightarrow> get_last_completed_stage sm' = get_last_completed_stage sm"
    using update_stage_error_keeps [of status now k kwargs sm] assms(1) by simp
  show ?thesis
    using stage_field_update [OF assms(1,2)] e
    by (simp add: s f stage_record_started [OF assms(3)] stage_record_completed [OF assms(4)])
qed


lemma update_stage_ok:
  assumes "sm_state sm \<noteq> None" and "''status'' \<notin> fst ` set kw" and "''stage_key'' \<notin> fst ` set kw"
    and "py_int (takeWhile (\<lambda>c. c \<noteq> CHR ''_'') k) = Some n"
  shows "fst (update_stage now k status kw sm) = None"
  using assms by (auto simp: update_stage_def Let_def split: option.splits)

lemma completed_at_after:
  assumes "sm_state sm \<noteq> None" and "py_int (takeWhile (\<lambda>c. c \<noteq> CHR ''_'') k) = Some n"
  shows "stage_field (snd (update_stage now k ''completed'' [] sm)) k ''completed_at''
           = Some (JStr (isoformat now))"
proof -
  have "fst (update_stage now k ''completed'' [] sm) = None"
    by (rule update_stage_ok [OF assms(1) _ _ assms(2)]) simp_all
  then have u: "update_stage now k ''completed'' [] sm = (None, snd (update_stage now k ''completed'' [] sm))"
    by (metis prod.collapse)
  show ?thesis
    using stage_field_update [OF u assms(1)] by (simp add: stage_record_completed)
qed

lemma iso_1_2: "isoformat (clock_at 1) \<noteq> isoformat (clock_at 2)"
  by code_simp

text \<open>
  Claim C9 as stated fails for the completion time: a second update to \<open>completed\<close>
  replaces the time written by the first.
\<close>

theorem completed_at_overwritten_counterexample:
  "stage_field (run_ops [(clock_at 1, UpdateStage ''1_load'' ''completed'' [])] fresh_project)
     ''1_load'' ''completed_at'' = Some (JStr (isoformat (clock_at 1)))
   \<and> stage_field (run_ops [(clock_at 1, UpdateStage ''1_load'' ''completed'' []),
                           (clock_at 2, UpdateStage ''1_load'' ''completed'' [])] fresh_project)
     ''1_load'' ''completed_at'' = Some (JStr (isoformat (clock_at 2)))
   \<and> isoformat (clock_at 1) \<noteq> isoformat (clock_at 2)"
proof -
  let ?a = "snd (update_stage (clock_at 1) ''1_load'' ''completed'' [] fresh_project)"
  have a: "sm_state ?a \<noteq> None" by (rule update_stage_keeps_state [OF fresh_state])
  show ?thesis
    using completed_at_after [OF fresh_state py_int_1, of "clock_at 1"]
      completed_at_after [OF a py_int_1, of "clock_at 2"] iso_1_2
    by (simp add: run_ops_def)
qed

text \<open>The first \<open>in_progress\<close> update of a fresh project satisfies the hypotheses.\<close>

theorem timestamps_update_stage_witness:
  "update_stage (clock_at 1) ''1_load'' ''in_progress'' [] fresh_project
     = (None, snd (update_stage (clock_at 1) ''1_load'' ''in_progress'' [] fresh_project))
   \<and> sm_state fresh_project \<noteq> None
   \<and> ''started_at'' \<notin> fst ` set ([] :: pydict) \<and> ''completed_at'' \<notin> fst ` set ([] :: pydict)
   \<and> stage_field (snd (update_stage (clock_at 1) ''1_load'' ''in_progress'' [] fresh_project))
         ''1_load'' ''started_at''
       = (if ''in_progress'' = ''in_progress'' \<and> \<not> truthy (stage_field fresh_project ''1_load'' ''started_at'')
          then Some (JStr (isoformat (clock_at 1))) else stage_field fresh_project ''1_load'' ''started_at'')"
proof -
  have "fst (update_stage (clock_at 1) ''1_load'' ''in_progress'' [] fresh_project) = None"
    by (rule update_stage_ok [OF fresh_state _ _ py_int_1]) simp_all
  then have u: "update_stage (clock_at 1) ''1_load'' ''in_progress'' [] fresh_project
     = (None, snd (update_stage (clock_at 1) ''1_load'' ''in_progress'' [] fresh_project))"
    by (metis prod.collapse)
  have k1: "''started_at'' \<notin> fst ` set ([] :: pydict)" and k2: "''completed_at'' \<notin> fst ` set ([] :: pydict)"
    by simp_all
  from timestamps_update_stage [OF u fresh_state k1 k2] u fresh_state show ?thesis by simp
qed

section \<open>The state store after an update\<close>

lemma update_stage_status:
  assumes "sm_state sm \<noteq> None" and "''status'' \<notin> fst ` set kw" and "''stage_key'' \<notin> fst ` set kw"
    and "py_int (takeWhile (\<lambda>c. c \<noteq> CHR ''_'') k) = Some n"
  shows "get_stage_status (snd (update_stage now k status kw sm)) k'
           = (if k' = k then Some (JStr status) else get_stage_status sm k')"
  using assms
  by (auto simp: update_stage_def Let_def get_stage_status_def sm_state_save dict_get_set
      stage_record_status split: option.splits)

lemma update_stage_last:
  assumes "sm_state sm \<noteq> None" and "''status'' \<notin> fst ` set kw" and "''stage_key'' \<notin> fst ` set kw"
    and "py_int (takeWhile (\<lambda>c. c \<noteq> CHR ''_'') k) = Some n"
  shows "get_last_completed_stage (snd (update_stage now k status kw sm))
           = (if status = ''completed'' then n else get_last_completed_stage sm)"
  using assms
  by (auto simp: update_stage_def Let_def get_last_completed_stage_def sm_state_save split: option.splits)

lemma keys_dict_set_list:
  "map fst (dict_set d k v) = (if k \<in> fst ` set d then map fst d else map fst d @ [k])"
  by (simp add: dict_set_def update_keys)

lemma update_stage_keys:
  assumes "sm_state sm \<noteq> None" and "''status'' \<notin> fst ` set kw" and "''stage_key'' \<notin> fst ` set kw"
    and "py_int (takeWhile (\<lambda>c. c \<noteq> CHR ''_'') k) = Some n"
  shows "stage_keys (snd (update_stage now k status kw sm))
           = (if k \<in> set (stage_keys sm) then stage_keys sm else stage_keys sm @ [k])"
  using assms
  by (auto simp: update_stage_def Let_def stage_keys_def sm_state_save keys_dict_set_list split: option.splits)

lemma update_stage_result:
  assumes "sm_state sm \<noteq> None" and "''status'' \<notin> fst ` set kw" and "''stage_key'' \<notin> fst ` set kw"
    and "py_int (takeWhile (\<lambda>c. c \<noteq> CHR ''_'') k) = Some n"
  obtains sm' where "update_stage now k status kw sm = (None, sm')" and "sm_state sm' \<noteq> None"
proof -
  have "fst (update_stage now k status kw sm) = None" by (rule update_stage_ok [OF assms])
  moreover have "sm_state (snd (update_stage now k status kw sm)) \<noteq> None"
    by (rule update_stage_keeps_state [OF assms(1)])
  ultimately show ?thesis using that by (cases "update_stage now k status kw sm") auto
qed

section \<open>Runs of a stage\<close>

lemma kw_empty: "''status'' \<notin> fst ` set ([] :: pydict)" "''stage_key'' \<notin> fst ` set ([] :: pydict)"
  by simp_all

lemma kw_completed:
  "''status'' \<notin> fst ` set [(''output_file'', x), (''tokens_used'', y)]"
  "''stage_key'' \<notin> fst ` set [(''output_file'', x), (''tokens_used'', y)]"
  by simp_all

lemma kw_error:
  "''status'' \<notin> fst ` set [(''error_message'', x)]"
  "''stage_key'' \<notin> fst ` set [(''error_message'', x)]"
  by simp_all

lemma run_ok_eq:
  assumes "sm_state sm \<noteq> None"
  shows "run execute_ok t0 t1 st sm =
           (Inr ok_result, st,
            snd (update_stage t1 (stage_key st) ''completed''
                   [(''output_file'', JNull), (''tokens_used'', JInt 0)]
                   (snd (update_stage t0 (stage_key st) ''in_progress'' [] sm))))"
proof -
  obtain sm1 where a: "update_stage t0 (stage_key st) ''in_progress'' [] sm = (None, sm1)"
    and s1: "sm_state sm1 \<noteq> None"
    by (rule update_stage_result [OF assms kw_empty stage_key_number])
  obtain sm3 where b: "update_stage t1 (stage_key st) ''completed''
             [(''output_file'', JNull), (''tokens_used'', JInt 0)] sm1 = (None, sm3)"
    by (rule update_stage_result [OF s1 kw_completed stage_key_number])
  show ?thesis
    by (simp add: run_def a execute_ok_def ok_result_def opt_str_def b)
qed

lemma run_raises_eq:
  assumes "sm_state sm \<noteq> None"
  shows "run (execute_raises m) t0 t1 st sm =
           (Inr \<lparr>success = False, output_file = None, tokens_used = 0, error = Some m, metadata = None\<rparr>,
            st,
            snd (update_stage t1 (stage_key st) ''error'' [(''error_message'', JStr m)]
                   (snd (update_stage t0 (stage_key st) ''in_progress'' [] sm))))"
proof -
  obtain sm1 where a: "update_stage t0 (stage_key st) ''in_progress'' [] sm = (None, sm1)"
    and s1: "sm_state sm1 \<noteq> None"
    by (rule update_stage_result [OF assms kw_empty stage_key_number])
  obtain sm3 where b: "update_stage t1 (stage_key st) ''error'' [(''error_message'', JStr m)] sm1
           = (None, sm3)"
    by (rule update_stage_result [OF s1 kw_error stage_key_number])
  show ?thesis
    by (simp add: run_def a execute_raises_def run_except_def b)
qed

lemma run_ok_effect:
  assumes "sm_state sm \<noteq> None"
  shows "fst (run execute_ok t0 t1 st sm) = Inr ok_result"
    and "sm_state (snd (snd (run execute_ok t0 t1 st sm))) \<noteq> None"
    and "get_last_completed_stage (snd (snd (run execute_ok t0 t1 st sm))) = stage_id st"
    and "get_stage_status (snd (snd (run execute_ok t0 t1 st sm))) k
           = (if k = stage_key st then Some (JStr ''completed'') else get_stage_status sm k)"
    and "stage_keys (snd (snd (run execute_ok t0 t1 st sm)))
           = (if stage_key st \<in> set (stage_keys sm) then stage_keys sm else stage_keys sm @ [stage_key st])"
proof -
  let ?sm1 = "snd (update_stage t0 (stage_key st) ''in_progress'' [] sm)"
  have s1: "sm_state ?sm1 \<noteq> None" by (rule update_stage_keeps_state [OF assms])
  note e = run_ok_eq [OF assms, of t0 t1 st]
  show "fst (run execute_ok t0 t1 st sm) = Inr ok_result" by (simp add: e)
  show "sm_state (snd (snd (run execute_ok t0 t1 st sm))) \<noteq> None"
    by (simp add: e update_stage_keeps_state [OF s1])
  show "get_last_completed_stage (snd (snd (run execute_ok t0 t1 st sm))) = stage_id st"
    unfolding e by (simp add: update_stage_last [OF s1 _ _ stage_key_number])
  show "get_stage_status (snd (snd (run execute_ok t0 t1 st sm))) k
           = (if k = stage_key st then Some (JStr ''completed'') else get_stage_status sm k)"
    unfolding e
    by (simp add: update_stage_status [OF s1 _ _ stage_key_number]
        update_stage_status [OF assms _ _ stage_key_number])
  show "stage_keys (snd (snd (run execute_ok t0 t1 st sm)))
           = (if stage_key st \<in> set (stage_keys sm) then stage_keys sm else stage_keys sm @ [stage_key st])"
    unfolding e
    by (simp add: update_stage_keys [OF s1 _ _ stage_key_number]
        update_stage_keys [OF assms _ _ stage_key_number])
qed

lemma run_raises_effect:
  assumes "sm_state sm \<noteq> None"
  shows "sm_state (snd (snd (run (execute_raises m) t0 t1 st sm))) \<noteq> None"
    and "get_last_completed_stage (snd (snd (run (execute_raises m) t0 t1 st sm)))
           = get_last_completed_stage sm"
    and "get_stage_status (snd (snd (run (execute_raises m) t0 t1 st sm))) k
           = (if k = stage_key st then Some (JStr ''error'') else get_stage_status sm k)"
proof -
  let ?sm1 = "snd (update_stage t0 (stage_key st) ''in_progress'' [] sm)"
  have s1: "sm_state ?sm1 \<noteq> None" by (rule update_stage_keeps_state [OF assms])
  note e = run_raises_eq [OF assms, of m t0 t1 st]
  show "sm_state (snd (snd (run (execute_raises m) t0 t1 st sm))) \<noteq> None"
    by (simp add: e update_stage_keeps_state [OF s1])
  show "get_last_completed_stage (snd (snd (run (execute_raises m) t0 t1 st sm)))
           = get_last_completed_stage sm"
    unfolding e
    by (simp add: update_stage_last [OF s1 _ _ stage_key_number]
        update_stage_last [OF assms _ _ stage_key_number])
  show "get_stage_status (snd (snd (run (execute_raises m) t0 t1 st sm))) k
           = (if k = stage_key st then Some (JStr ''error'') else get_stage_status sm k)"
    unfolding e
    by (simp add: update_stage_status [OF s1 _ _ stage_key_number]
        update_stage_status [OF assms _ _ stage_key_number])
qed

lemma run_stage_eq:
  assumes "state_manager p = Some sm" and "can_run_stage sm n" and "create_stage n kw = Inr st"
  shows "run_stage ex t0 t1 n kw p
           = (fst (run ex t0 t1 st sm), \<lparr>state_manager = Some (snd (snd (run ex t0 t1 st sm)))\<rparr>)"
  using assms by (simp add: run_stage_def split: prod.splits)

lemma create_stage_1: "create_stage 1 [''input_file''] = Inr \<lparr>stage_id = 1, stage_name = ''01_load''\<rparr>"
  by (simp add: create_stage_def STAGES_def)

lemma create_stage_2: "create_stage 2 [] = Inr \<lparr>stage_id = 2, stage_name = ''02_format''\<rparr>"
  by (simp add: create_stage_def STAGES_def)

lemma create_stage_3: "create_stage 3 [] = Inr \<lparr>stage_id = 3, stage_name = ''03_compare''\<rparr>"
  by (simp add: create_stage_def STAGES_def)

lemma stage_key_1: "stage_key \<lparr>stage_id = 1, stage_name = ''01_load''\<rparr> = ''1_load''"
  by (simp add: stage_key_def str_int_small)

lemma stage_key_2: "stage_key \<lparr>stage_id = 2, stage_name = ''02_format''\<rparr> = ''2_format''"
  by (simp add: stage_key_def str_int_small)

section \<open>Stage keys and reported failures\<close>

lemma fresh_sm_state:
  "sm_state fresh_project = Some
     \<lparr>version = ''1.0'', project_name = ''demo'', created_at = clock_at 0, updated_at = clock_at 0,
      config = [], input = [],
      pipeline = \<lparr>current_stage = 0, stages = seeded_stages\<rparr>,
      materials = \<lparr>selected = [], generated = []\<rparr>,
      statistics = [(''total_tokens_used'', JInt 0), (''total_api_calls'', JInt 0),
                    (''total_time_seconds'', JInt 0)]\<rparr>"
  by (simp add: fresh_project_def create_new_def sm_state_save)

lemma fresh_stage_keys:
  "stage_keys fresh_project = [''1_load'', ''2_format'', ''3_compare'', ''4_plan'', ''5_write'',
      ''6_merge'', ''7_edit'', ''8_analyze'', ''9_select'', ''10_generate'']"
  by (simp add: stage_keys_def fresh_sm_state seeded_stages_eq)

lemma fresh_status:
  "k \<in> set (stage_keys fresh_project) \<Longrightarrow> get_stage_status fresh_project k = Some (JStr ''pending'')"
  by (auto simp: stage_keys_def get_stage_status_def fresh_sm_state seeded_stages_eq dict_get_def)

lemma stage_key_all:
  "map (stage_key \<circ> snd) STAGES = [''1_load'', ''2_format'', ''3_compare'', ''4_plan'',
     ''5_write_section'', ''6_merge'', ''7_literary_edit'', ''8_marketing_analysis'',
     ''9_select'', ''10_generate'']"
  by (simp add: STAGES_def stage_key_def str_int_small)

text \<open>
  Claim C4 on the code. A fresh project has the ten seeded keys. The keys under which
  the ten stages record their status differ from them at stages 5, 7 and 8. Running
  stage 5 on a fresh project therefore adds an eleventh key, \<open>5_write_section\<close>, and
  leaves the seeded record \<open>5_write\<close> at \<open>pending\<close>.
\<close>

theorem write_stage_adds_key:
  "stage_keys fresh_project = [''1_load'', ''2_format'', ''3_compare'', ''4_plan'', ''5_write'',
      ''6_merge'', ''7_edit'', ''8_analyze'', ''9_select'', ''10_generate'']
   \<and> map (stage_key \<circ> snd) STAGES = [''1_load'', ''2_format'', ''3_compare'', ''4_plan'',
      ''5_write_section'', ''6_merge'', ''7_literary_edit'', ''8_marketing_analysis'',
      ''9_select'', ''10_generate'']
   \<and> fst (run execute_ok (clock_at 1) (clock_at 2)
            \<lparr>stage_id = 5, stage_name = ''05_write_section''\<rparr> fresh_project) = Inr ok_result
   \<and> stage_keys (snd (snd (run execute_ok (clock_at 1) (clock_at 2)
                   \<lparr>stage_id = 5, stage_name = ''05_write_section''\<rparr> fresh_project)))
       = [''1_load'', ''2_format'', ''3_compare'', ''4_plan'', ''5_write'',
          ''6_merge'', ''7_edit'', ''8_analyze'', ''9_select'', ''10_generate'', ''5_write_section'']
   \<and> get_stage_status (snd (snd (run execute_ok (clock_at 1) (clock_at 2)
                   \<lparr>stage_id = 5, stage_name = ''05_write_section''\<rparr> fresh_project))) ''5_write''
       = Some (JStr ''pending'')"
proof -
  have k: "stage_key \<lparr>stage_id = 5, stage_name = ''05_write_section''\<rparr> = ''5_write_section''"
    by (simp add: stage_key_def str_int_small)
  show ?thesis
    by (simp add: run_ok_effect [OF fresh_state] k fresh_stage_keys stage_key_all fresh_status)
qed

lemma run_failed_eq:
  assumes "sm_state sm \<noteq> None"
    and "\<And>sm1. execute st sm1 = (Inr result, st, sm1)" and "\<not> success result"
  shows "run execute t0 t1 st sm
           = (Inr result, st, snd (update_stage t0 (stage_key st) ''in_progress'' [] sm))"
proof -
  obtain sm1 where a: "update_stage t0 (stage_key st) ''in_progress'' [] sm = (None, sm1)"
    by (rule update_stage_result [OF assms(1) kw_empty stage_key_number])
  show ?thesis by (simp add: run_def a assms(2,3))
qed

lemma plan_without_sections:
  "PlanStage_execute (Inr tr) (example_llm reply_without_sections)
     (example_loads [(reply_without_sections, JObj [(''title'', JStr ''T'')])])
   = (Inr \<lparr>success = False, output_file = None, tokens_used = 0,
           error = Some ''Invalid plan structure returned by LLM'', metadata = None\<rparr>, None)"
proof -
  have c: "code_block reply_without_sections = None"
    by (simp add: code_block_def reply_without_sections_def fence_def)
  have b: "brace_span reply_without_sections = Some reply_without_sections"
    by (simp add: brace_span_def reply_without_sections_def)
  have v: "validate_plan (JObj [(''title'', JStr ''T'')]) = Inr False"
    by (simp add: validate_plan_def)
  show ?thesis
    by (simp add: PlanStage_execute_def example_llm_def extract_json_def c b example_loads_def v)
qed

lemma stage_key_4: "stage_key \<lparr>stage_id = 4, stage_name = ''04_plan''\<rparr> = ''4_plan''"
  by (simp add: stage_key_def str_int_small)

text \<open>
  Claim C3 on the code. Stage 4 receives a reply whose plan has no \<open>sections\<close>:
  \<open>execute\<close> reports the failure in its result, \<open>run\<close> returns that failed result,
  and the record of the stage keeps the status \<open>in_progress\<close> written before
  \<open>execute\<close>, with no \<open>error_message\<close>.
\<close>

theorem run_reported_failure_not_recorded:
  "fst (run (plan_stage (Inr ''transcript'') (example_llm reply_without_sections)
              (example_loads [(reply_without_sections, JObj [(''title'', JStr ''T'')])]))
          (clock_at 1) (clock_at 2) \<lparr>stage_id = 4, stage_name = ''04_plan''\<rparr> fresh_project)
     = Inr \<lparr>success = False, output_file = None, tokens_used = 0,
            error = Some ''Invalid plan structure returned by LLM'', metadata = None\<rparr>
   \<and> get_stage_status
       (snd (snd (run (plan_stage (Inr ''transcript'') (example_llm reply_without_sections)
              (example_loads [(reply_without_sections, JObj [(''title'', JStr ''T'')])]))
          (clock_at 1) (clock_at 2) \<lparr>stage_id = 4, stage_name = ''04_plan''\<rparr> fresh_project)))
       ''4_plan'' = Some (JStr ''in_progress'')
   \<and> stage_field
       (snd (snd (run (plan_stage (Inr ''transcript'') (example_llm reply_without_sections)
              (example_loads [(reply_without_sections, JObj [(''title'', JStr ''T'')])]))
          (clock_at 1) (clock_at 2) \<lparr>stage_id = 4, stage_name = ''04_plan''\<rparr> fresh_project)))
       ''4_plan'' ''error_message'' = None"
proof -
  let ?ex = "plan_stage (Inr ''transcript'') (example_llm reply_without_sections)
              (example_loads [(reply_without_sections, JObj [(''title'', JStr ''T'')])])"
  let ?st = "\<lparr>stage_id = 4, stage_name = ''04_plan''\<rparr>"
  let ?r = "\<lparr>success = False, output_file = None, tokens_used = 0,
            error = Some ''Invalid plan structure returned by LLM'', metadata = None\<rparr>"
  have e: "run ?ex (clock_at 1) (clock_at 2) ?st fresh_project
         = (Inr ?r, ?st, snd (update_stage (clock_at 1) (stage_key ?st) ''in_progress'' [] fresh_project))"
    by (rule run_failed_eq [OF fresh_state]) (simp_all add: plan_stage_def plan_without_sections)
  obtain sm1 where u: "update_stage (clock_at 1) ''4_plan'' ''in_progress'' [] fresh_project = (None, sm1)"
    using update_stage_result [OF fresh_state kw_empty stage_key_number, of "clock_at 1" ?st "''in_progress''"]
    by (auto simp: stage_key_4)
  have f: "stage_field sm1 ''4_plan'' ''error_message'' = None"
    using stage_field_update [OF u fresh_state, of "''error_message''"]
    by (simp add: fresh_sm_state seeded_stages_eq dict_get_def stage_record_def Let_def dict_set_def)
  have s: "get_stage_status (snd (update_stage (clock_at 1) ''4_plan'' ''in_progress'' [] fresh_project)) ''4_plan''
             = Some (JStr ''in_progress'')"
    using update_stage_status [OF fresh_state kw_empty stage_key_number, of "clock_at 1" ?st "''in_progress''" "''4_plan''"]
    by (simp add: stage_key_4)
  show ?thesis unfolding e stage_key_4 u using f s unfolding u by simp
qed

section \<open>The order of stages\<close>

lemma update_stage_exc:
  "fst (update_stage now k status kw sm) = Some e \<Longrightarrow>
   e = Exc ''update_stage() got multiple values for argument'' \<or> e = Exc ''invalid literal for int() with base 10''"
  by (auto simp: update_stage_def Let_def split: option.splits if_splits)

lemma run_except_inl:
  assumes "fst (run_except now e st sm) = Inl x"
  shows "(\<exists>m. x = BaseExc m) \<or> x = Exc ''update_stage() got multiple values for argument''
     \<or> x = Exc ''invalid literal for int() with base 10''"
proof (cases e)
  case (BaseExc m)
  with assms show ?thesis by (auto simp: run_except_def)
next
  case (Exc m)
  obtain r sm' where u: "update_stage now (stage_key st) ''error'' [(''error_message'', JStr m)] sm = (r, sm')"
    by (cases "update_stage now (stage_key st) ''error'' [(''error_message'', JStr m)] sm")
  show ?thesis
  proof (cases r)
    case None
    with assms Exc u show ?thesis by (simp add: run_except_def)
  next
    case (Some e')
    with assms Exc u have "x = e'" by (simp add: run_except_def)
    moreover from u Some have "fst (update_stage now (stage_key st) ''error'' [(''error_message'', JStr m)] sm) = Some e'"
      by simp
    ultimately show ?thesis using update_stage_exc by blast
  qed
qed

lemma run_inl:
  assumes "fst (run execute t0 t1 st sm) = Inl x"
  shows "(\<exists>m. x = BaseExc m) \<or> x = Exc ''update_stage() got multiple values for argument''
     \<or> x = Exc ''invalid literal for int() with base 10''"
proof -
  from assms obtain e st' sm' where "fst (run_except t1 e st' sm') = Inl x"
    by (auto simp: run_def split: prod.splits option.splits sum.splits if_splits)
  then show ?thesis by (rule run_except_inl)
qed

lemma run_not_out_of_order: "fst (run execute t0 t1 st sm) \<noteq> Inl (out_of_order n l)"
  using run_inl [of execute t0 t1 st sm "out_of_order n l"] by (auto simp: out_of_order_def)

lemma create_stage_not_out_of_order: "create_stage n kwargs \<noteq> Inl (out_of_order n' l)"
  by (auto simp: create_stage_def out_of_order_def split: option.splits)

text \<open>
  Claim C1, as amended. With a project loaded, \<open>run_stage(n)\<close> fails with the
  out-of-order error exactly when \<open>n\<close> is not 1 and \<open>current_stage\<close>, the number
  of the stage completed last, is below \<open>n - 1\<close>; the statuses of the stage
  records are not consulted. \<open>can_run_stage(1)\<close> holds in every state.
\<close>

theorem run_stage_out_of_order:
  "(state_manager p = Some sm \<longrightarrow>
      (fst (run_stage execute t0 t1 n kwargs p) = Inl (out_of_order n (get_last_completed_stage sm)))
        = (n \<noteq> 1 \<and> get_last_completed_stage sm < n - 1))
   \<and> can_run_stage sm' 1"
proof -
  have c: "can_run_stage sm' 1" by (simp add: can_run_stage_def)
  have "(fst (run_stage execute t0 t1 n kwargs p) = Inl (out_of_order n (get_last_completed_stage sm)))
        = (n \<noteq> 1 \<and> get_last_completed_stage sm < n - 1)" if p: "state_manager p = Some sm"
  proof (cases "can_run_stage sm n")
    case False
    then show ?thesis using p by (auto simp: run_stage_def can_run_stage_def split: if_splits)
  next
    case True
    have "fst (run_stage execute t0 t1 n kwargs p) \<noteq> Inl (out_of_order n (get_last_completed_stage sm))"
    proof (cases "create_stage n kwargs")
      case (Inl e)
      then show ?thesis using p True create_stage_not_out_of_order [of n kwargs]
        by (auto simp: run_stage_def)
    next
      case (Inr st)
      show ?thesis
        using run_not_out_of_order [of execute t0 t1 st sm]
        by (simp add: run_stage_eq [OF p True Inr])
    qed
    with True show ?thesis by (auto simp: can_run_stage_def split: if_splits)
  qed
  with c show ?thesis by blast
qed

text \<open>
  In a fresh project stage 3 is refused, with the message that names stage 1 as the
  one to complete.
\<close>

theorem run_stage_out_of_order_witness:
  "state_manager \<lparr>state_manager = Some fresh_project\<rparr> = Some fresh_project
   \<and> (3 :: int) \<noteq> 1 \<and> get_last_completed_stage fresh_project < 3 - 1
   \<and> fst (run_stage execute_ok (clock_at 1) (clock_at 2) 3 [] \<lparr>state_manager = Some fresh_project\<rparr>)
       = Inl (Exc ''Cannot run stage 3. Complete stage 1 first.'')"
  using run_stage_out_of_order [of "\<lparr>state_manager = Some fresh_project\<rparr>" fresh_project
          execute_ok "clock_at 1" "clock_at 2" 3 "[]"]
  by (simp add: fresh_current out_of_order_def str_int_small)

lemma after_stage_1:
  "\<exists>sm. state_manager after_stage_1 = Some sm \<and> sm_state sm \<noteq> None
     \<and> get_last_completed_stage sm = 1"
proof -
  let ?st = "\<lparr>stage_id = 1, stage_name = ''01_load''\<rparr>"
  let ?sm = "snd (snd (run execute_ok (clock_at 1) (clock_at 2) ?st fresh_project))"
  have p: "state_manager \<lparr>state_manager = Some fresh_project\<rparr> = Some fresh_project" by simp
  have c: "can_run_stage fresh_project 1" by (simp add: can_run_stage_def)
  have "state_manager after_stage_1 = Some ?sm"
    unfolding after_stage_1_def run_stage_eq [OF p c create_stage_1] by simp
  moreover have "sm_state ?sm \<noteq> None" by (rule run_ok_effect(2) [OF fresh_state])
  moreover have "get_last_completed_stage ?sm = 1"
    unfolding run_ok_effect(3) [OF fresh_state] by simp
  ultimately show ?thesis by blast
qed

lemma after_stage_2:
  "\<exists>sm. state_manager after_stage_2 = Some sm \<and> sm_state sm \<noteq> None
     \<and> get_last_completed_stage sm = 2"
proof -
  from after_stage_1 obtain sm where s: "state_manager after_stage_1 = Some sm" "sm_state sm \<noteq> None"
    "get_last_completed_stage sm = 1" by blast
  let ?st = "\<lparr>stage_id = 2, stage_name = ''02_format''\<rparr>"
  let ?sm = "snd (snd (run execute_ok (clock_at 3) (clock_at 4) ?st sm))"
  have c: "can_run_stage sm 2" by (simp add: can_run_stage_def s)
  have "state_manager after_stage_2 = Some ?sm"
    unfolding after_stage_2_def run_stage_eq [OF s(1) c create_stage_2] by simp
  moreover have "sm_state ?sm \<noteq> None" by (rule run_ok_effect(2) [OF s(2)])
  moreover have "get_last_completed_stage ?sm = 2"
    unfolding run_ok_effect(3) [OF s(2)] by simp
  ultimately show ?thesis by blast
qed

lemma after_failed_rerun:
  "\<exists>sm. state_manager after_failed_rerun = Some sm \<and> sm_state sm \<noteq> None
     \<and> get_last_completed_stage sm = 2 \<and> get_stage_status sm ''1_load'' = Some (JStr ''error'')"
proof -
  from after_stage_2 obtain sm where s: "state_manager after_stage_2 = Some sm" "sm_state sm \<noteq> None"
    "get_last_completed_stage sm = 2" by blast
  let ?st = "\<lparr>stage_id = 1, stage_name = ''01_load''\<rparr>"
  let ?sm = "snd (snd (run (execute_raises ''disk full'') (clock_at 5) (clock_at 6) ?st sm))"
  have c: "can_run_stage sm 1" by (simp add: can_run_stage_def)
  have "state_manager after_failed_rerun = Some ?sm"
    unfolding after_failed_rerun_def run_stage_eq [OF s(1) c create_stage_1] by simp
  moreover have "sm_state ?sm \<noteq> None" by (rule run_raises_effect(1) [OF s(2)])
  moreover have "get_last_completed_stage ?sm = 2"
    unfolding run_raises_effect(2) [OF s(2)] by (rule s(3))
  moreover have "get_stage_status ?sm ''1_load'' = Some (JStr ''error'')"
    unfolding run_raises_effect(3) [OF s(2)] by (simp add: stage_key_1)
  ultimately show ?thesis by blast
qed

text \<open>
  Claim C1 as stated fails. Stages 1 and 2 are run with success, then stage 1 is run
  again and raises: its record has status \<open>error\<close>, \<open>current_stage\<close> is still 2, and
  stage 3 runs although stage 1 is not \<open>completed\<close>.
\<close>

theorem run_stage_after_failed_rerun_counterexample:
  "pipeline_status after_failed_rerun ''1_load'' = Some (JStr ''error'')
   \<and> fst (run_stage execute_ok (clock_at 7) (clock_at 8) 3 [] after_failed_rerun) = Inr ok_result"
proof -
  from after_failed_rerun obtain sm where s: "state_manager after_failed_rerun = Some sm"
    "sm_state sm \<noteq> None" "get_last_completed_stage sm = 2"
    "get_stage_status sm ''1_load'' = Some (JStr ''error'')" by blast
  have c: "can_run_stage sm 3" by (simp add: can_run_stage_def s)
  have "fst (run_stage execute_ok (clock_at 7) (clock_at 8) 3 [] after_failed_rerun) = Inr ok_result"
    unfolding run_stage_eq [OF s(1) c create_stage_3] by (simp add: run_ok_effect(1) [OF s(2)])
  then show ?thesis by (simp add: pipeline_status_def s(1,4))
qed

end
